theory Spec2Isabelle
  imports Complex_Main "HOL-Library.Word" "HOL-Library.Signed_Division"
begin

section \<open>Package money\<close>

text \<open>
  Go's \<open>int64\<close> is a 64-bit word: \<open>+\<close>, \<open>-\<close> and \<open>*\<close> wrap around, \<open>sint\<close> reads the
  two's complement value. Go's \<open>int\<close> (quantities, the \<open>n\<close> of \<open>Allocate\<close>) is an
  \<open>int\<close>; the conversion \<open>int64(n)\<close> is \<open>word_of_int n\<close>. A \<open>time.Time\<close> is an
  \<open>int\<close> (an instant on the clock). Every \<open>error\<close> value the packages declare is a
  constructor of one datatype; \<open>ErrOther\<close> stands for the errors a collaborator may
  invent, \<open>Panic\<close> for a run-time panic (a nil dereference), which ends the call
  without a returned value.
\<close>

type_synonym int64 = "64 word"
type_synonym time = int

datatype error =
    ErrCurrencyMismatch
  | ErrNegativeAmount
  | ErrInvalidCurrency
  | ErrOrderNotFound
  | ErrInvalidStatus
  | ErrEmptyCart
  | ErrInvalidAddress
  | ErrPaymentFailed
  | ErrInsufficientStock
  | ErrInvalidSKU
  | ErrReservationFailed
  | ErrPromotionInvalid
  | ErrMinPurchaseNotMet
  | ErrOther string
  | Panic string

record Money =
  Amount :: int64
  Currency :: string

text \<open>\<open>Money{}\<close>, the zero value the failing operations return beside their error.\<close>

definition Money_zero_value :: Money where
  "Money_zero_value = \<lparr>Amount = 0, Currency = ''''\<rparr>"

definition New :: "int64 \<Rightarrow> string \<Rightarrow> Money \<times> error option" where
  "New amount currency =
     (if currency = '''' then (Money_zero_value, Some ErrInvalidCurrency)
      else (\<lparr>Amount = amount, Currency = currency\<rparr>, None))"

definition Zero :: "string \<Rightarrow> Money" where
  "Zero currency = \<lparr>Amount = 0, Currency = currency\<rparr>"

text \<open>
  The operations return Go's pair \<open>(value, error)\<close>: callers such as \<open>PriceCart\<close>
  drop the error (\<open>x, _ = a.Add(b)\<close>) and go on with the value, which is \<open>Money{}\<close>
  when the currencies differ.
\<close>

definition Add :: "Money \<Rightarrow> Money \<Rightarrow> Money \<times> error option" where
  "Add m other =
     (if Currency m \<noteq> Currency other then (Money_zero_value, Some ErrCurrencyMismatch)
      else (\<lparr>Amount = Amount m + Amount other, Currency = Currency m\<rparr>, None))"

definition Subtract :: "Money \<Rightarrow> Money \<Rightarrow> Money \<times> error option" where
  "Subtract m other =
     (if Currency m \<noteq> Currency other then (Money_zero_value, Some ErrCurrencyMismatch)
      else (\<lparr>Amount = Amount m - Amount other, Currency = Currency m\<rparr>, None))"

definition MultiplyInt :: "Money \<Rightarrow> int \<Rightarrow> Money" where
  "MultiplyInt m factor = \<lparr>Amount = Amount m * word_of_int factor, Currency = Currency m\<rparr>"

definition IsNegative :: "Money \<Rightarrow> bool" where
  "IsNegative m = (sint (Amount m) < 0)"

definition IsZero :: "Money \<Rightarrow> bool" where
  "IsZero m = (Amount m = 0)"

definition IsPositive :: "Money \<Rightarrow> bool" where
  "IsPositive m = (0 < sint (Amount m))"

definition LessThan :: "Money \<Rightarrow> Money \<Rightarrow> bool \<times> error option" where
  "LessThan m other =
     (if Currency m \<noteq> Currency other then (False, Some ErrCurrencyMismatch)
      else (sint (Amount m) < sint (Amount other), None))"

definition GreaterThan :: "Money \<Rightarrow> Money \<Rightarrow> bool \<times> error option" where
  "GreaterThan m other =
     (if Currency m \<noteq> Currency other then (False, Some ErrCurrencyMismatch)
      else (sint (Amount other) < sint (Amount m), None))"

definition Equals :: "Money \<Rightarrow> Money \<Rightarrow> bool" where
  "Equals m other = (Amount m = Amount other \<and> Currency m = Currency other)"

text \<open>
  Go's \<open>/\<close> and \<open>%\<close> on \<open>int64\<close> truncate towards zero; the remainder has the sign of
  the dividend.
\<close>

definition go_quot :: "int64 \<Rightarrow> int64 \<Rightarrow> int64" where
  "go_quot a b = word_of_int (sint a sdiv sint b)"

definition go_rem :: "int64 \<Rightarrow> int64 \<Rightarrow> int64" where
  "go_rem a b = word_of_int (sint a smod sint b)"

text \<open>
  \<open>Allocate\<close>: the loop \<open>for i := 0; i < n; i++\<close> fills \<open>result[i]\<close>, so the result is
  the image of \<open>[0..<n]\<close>.
\<close>

definition Allocate :: "Money \<Rightarrow> int \<Rightarrow> Money list" where
  "Allocate m n =
     (if n \<le> 0 then []
      else let base = go_quot (Amount m) (word_of_int n);
               remainder = go_rem (Amount m) (word_of_int n)
           in map (\<lambda>i. \<lparr>Amount = (if int i < sint remainder then base + 1 else base),
                          Currency = Currency m\<rparr>) [0..<nat n])"

text \<open>The sum of the minor units of a list of shares, in \<open>int64\<close> arithmetic.\<close>

definition sum_amounts :: "Money list \<Rightarrow> int64" where
  "sum_amounts ms = sum_list (map Amount ms)"


section \<open>Package orders: the entity\<close>

type_synonym OrderStatus = string

definition OrderStatusPending :: OrderStatus where "OrderStatusPending = ''pending''"
definition OrderStatusPaid :: OrderStatus where "OrderStatusPaid = ''paid''"
definition OrderStatusProcessing :: OrderStatus where "OrderStatusProcessing = ''processing''"
definition OrderStatusShipped :: OrderStatus where "OrderStatusShipped = ''shipped''"
definition OrderStatusDelivered :: OrderStatus where "OrderStatusDelivered = ''delivered''"
definition OrderStatusCanceled :: OrderStatus where "OrderStatusCanceled = ''canceled''"
definition OrderStatusRefunded :: OrderStatus where "OrderStatusRefunded = ''refunded''"

record Address =
  FirstName :: string
  LastName :: string
  Company :: string
  AddressLine1 :: string
  AddressLine2 :: string
  City :: string
  State :: string
  PostalCode :: string
  Country :: string
  Phone :: string

record OrderItem =
  ID :: string
  ProductID :: string
  VariantID :: "string option"
  SKU :: string
  Name :: string
  UnitPrice :: Money
  Quantity :: int
  DiscountAmount :: Money
  TaxAmount :: Money
  Total :: Money
  Attributes :: "(string \<times> string) list"

record Order =
  ID :: string
  OrderNumber :: string
  UserID :: string
  Status :: OrderStatus
  Items :: "OrderItem list"
  ShippingAddress :: Address
  BillingAddress :: Address
  PaymentMethodID :: string
  Subtotal :: Money
  DiscountTotal :: Money
  TaxTotal :: Money
  ShippingTotal :: Money
  Total :: Money
  Notes :: string
  IPAddress :: string
  UserAgent :: string
  CreatedAt :: time
  UpdatedAt :: time
  CompletedAt :: "time option"
  CanceledAt :: "time option"

definition IsComplete :: "Address \<Rightarrow> bool" where
  "IsComplete a =
     (FirstName a \<noteq> '''' \<and> LastName a \<noteq> '''' \<and> AddressLine1 a \<noteq> '''' \<and>
      City a \<noteq> '''' \<and> PostalCode a \<noteq> '''' \<and> Country a \<noteq> '''')"

text \<open>The map literal of \<open>CanTransitionTo\<close>, in the order it is written.\<close>

definition transitions :: "(OrderStatus \<times> OrderStatus list) list" where
  "transitions =
     [(OrderStatusPending, [OrderStatusPaid, OrderStatusCanceled]),
      (OrderStatusPaid, [OrderStatusProcessing, OrderStatusCanceled, OrderStatusRefunded]),
      (OrderStatusProcessing, [OrderStatusShipped, OrderStatusCanceled]),
      (OrderStatusShipped, [OrderStatusDelivered]),
      (OrderStatusDelivered, [OrderStatusRefunded])]"

definition CanTransitionTo :: "Order \<Rightarrow> OrderStatus \<Rightarrow> bool" where
  "CanTransitionTo ord newStatus =
     (case map_of transitions (Order.Status ord) of
        None \<Rightarrow> False
      | Some allowedTransitions \<Rightarrow> newStatus \<in> set allowedTransitions)"

text \<open>
  The method \<open>(*Order).UpdateStatus\<close>: the mutated order and the boolean it returns.
  \<open>now\<close> is the reading of \<open>time.Now()\<close>.
\<close>

definition Order_UpdateStatus :: "time \<Rightarrow> Order \<Rightarrow> OrderStatus \<Rightarrow> Order \<times> bool" where
  "Order_UpdateStatus now ord newStatus =
     (if \<not> CanTransitionTo ord newStatus then (ord, False)
      else
        let o1 = ord\<lparr>Order.Status := newStatus, UpdatedAt := now\<rparr>;
            o2 = (if newStatus = OrderStatusDelivered then o1\<lparr>CompletedAt := Some now\<rparr> else o1);
            o3 = (if newStatus = OrderStatusCanceled then o2\<lparr>CanceledAt := Some now\<rparr> else o2)
        in (o3, True))"

definition IsCancelable :: "Order \<Rightarrow> bool" where
  "IsCancelable ord =
     (Order.Status ord = OrderStatusPending \<or> Order.Status ord = OrderStatusPaid \<or>
      Order.Status ord = OrderStatusProcessing)"

definition IsRefundable :: "Order \<Rightarrow> bool" where
  "IsRefundable ord =
     (Order.Status ord = OrderStatusPaid \<or> Order.Status ord = OrderStatusDelivered)"


section \<open>Package cart\<close>

record CartItem =
  ID :: string
  ProductID :: string
  VariantID :: "string option"
  SKU :: string
  Name :: string
  Price :: Money
  Quantity :: int
  Attributes :: "(string \<times> string) list"
  AddedAt :: time

record Cart =
  ID :: string
  UserID :: string
  SessionID :: string
  Items :: "CartItem list"
  CreatedAt :: time
  UpdatedAt :: time
  ExpiresAt :: "time option"

definition IsEmpty :: "Cart \<Rightarrow> bool" where
  "IsEmpty c = (length (Cart.Items c) = 0)"


section \<open>Packages tax and shipping: what the collaborators exchange\<close>

record tax_Address =
  Country :: string
  State :: string
  City :: string
  PostalCode :: string
  Street :: string

record TaxableItem =
  ID :: string
  Amount :: Money
  Quantity :: int
  TaxCode :: string
  IsTaxable :: bool

record CalculationRequest =
  LineItems :: "TaxableItem list"
  ShippingCost :: Money
  Address :: tax_Address
  TaxInclusive :: bool

record AppliedTaxRate =
  Name :: string
  Rate :: rat
  Amount :: Money
  Jurisdiction :: string
  TaxType :: string

record LineItemTax =
  LineItemID :: string
  TaxAmount :: Money
  TaxRates :: "AppliedTaxRate list"

record CalculationResult =
  TotalTax :: Money
  TaxRates :: "AppliedTaxRate list"
  LineItemTaxes :: "LineItemTax list"
  ShippingTax :: Money

record shipping_Address =
  Country :: string
  State :: string
  City :: string
  PostalCode :: string

record ShippableItem =
  SKU :: string
  Quantity :: int
  WeightGrams :: int
  LengthCm :: int
  WidthCm :: int
  HeightCm :: int
  IsFragile :: bool
  RequiresColdChain :: bool

record RateRequest =
  Items :: "ShippableItem list"
  SourceAddress :: shipping_Address
  DestinationAddress :: shipping_Address
  ShippingMethodID :: string

record ShippingRate =
  MethodID :: string
  MethodName :: string
  Cost :: Money
  EstimatedDays :: int
  EstimatedDaysMin :: int
  EstimatedDaysMax :: int
  Carrier :: string
  ServiceLevel :: string
  IsGuaranteed :: bool


section \<open>Package pricing\<close>

record LineItem =
  ID :: string
  ProductID :: string
  VariantID :: "string option"
  SKU :: string
  Name :: string
  UnitPrice :: Money
  Quantity :: int
  Attributes :: "(string \<times> string) list"

record LineItemPrice =
  LineItemID :: string
  Subtotal :: Money
  DiscountAmount :: Money
  TaxAmount :: Money
  Total :: Money

type_synonym DiscountType = string

definition DiscountTypePercentage :: DiscountType where
  "DiscountTypePercentage = ''percentage''"
definition DiscountTypeFixedAmount :: DiscountType where
  "DiscountTypeFixedAmount = ''fixed_amount''"
definition DiscountTypeBuyXGetY :: DiscountType where
  "DiscountTypeBuyXGetY = ''buy_x_get_y''"
definition DiscountTypeFreeShipping :: DiscountType where
  "DiscountTypeFreeShipping = ''free_shipping''"

record AppliedDiscount =
  PromotionID :: string
  Code :: string
  Name :: string
  DiscountType :: DiscountType
  Amount :: Money
  AppliedToItems :: "string list"

record TaxLine =
  Name :: string
  Rate :: rat
  Amount :: Money
  Jurisdiction :: string

text \<open>
  \<open>Value\<close> is a \<open>float64\<close> in the source: a finite one is a rational number, and that
  is its type here.
\<close>

record Promotion =
  ID :: string
  Code :: string
  Name :: string
  Description :: string
  DiscountType :: DiscountType
  Value :: rat
  MinPurchase :: "Money option"
  MaxDiscount :: "Money option"
  ValidFrom :: time
  ValidTo :: time
  IsActive :: bool
  UsageLimit :: int
  UsageCount :: int
  ApplicableProductIDs :: "string list"
  ApplicableCategoryIDs :: "string list"
  ExcludedProductIDs :: "string list"

record PricingResult =
  Subtotal :: Money
  DiscountTotal :: Money
  TaxTotal :: Money
  ShippingTotal :: Money
  Total :: Money
  LineItemPrices :: "LineItemPrice list"
  AppliedDiscounts :: "AppliedDiscount list"
  TaxLines :: "TaxLine list"
  Currency :: string
  CalculatedAt :: time

record pricing_Address =
  Country :: string
  State :: string
  City :: string
  PostalCode :: string

record PriceCartRequest =
  Cart :: "Cart option"
  PromotionCodes :: "string list"
  ShippingMethodID :: "string option"
  ShippingAddress :: "pricing_Address option"
  TaxInclusive :: bool

text \<open>
  The service and its collaborators. \<open>FindByCode\<close> and \<open>Calculate\<close> return either an
  error or a value; \<open>GetRate\<close> returns Go's pair, since \<open>PriceCart\<close> tests both halves.
  An absent (nil) calculator is \<open>None\<close>.
\<close>

record PricingService =
  promotionRepo :: "string \<Rightarrow> error + Promotion"
  taxCalculator :: "(CalculationRequest \<Rightarrow> error + CalculationResult) option"
  shippingCalc :: "(RateRequest \<Rightarrow> ShippingRate option \<times> error option) option"

text \<open>
  Floating point is not modelled. The two \<open>float64\<close> computations of the source are
  parameters of the model, so that what is proved holds for every rounding behaviour:
  \<open>mul_trunc a f\<close> is \<open>int64(float64(a) * f)\<close> and \<open>to_int64 f\<close> is \<open>int64(f)\<close>.
\<close>

record float64_ops =
  mul_trunc :: "int64 \<Rightarrow> rat \<Rightarrow> int64"
  to_int64 :: "rat \<Rightarrow> int64"

text \<open>
  The instance the examples run on: the product is exact and the conversion truncates
  towards zero.
\<close>

definition truncate_rat :: "rat \<Rightarrow> int" where
  "truncate_rat x = (if 0 \<le> x then \<lfloor>x\<rfloor> else \<lceil>x\<rceil>)"

definition exact_float64 :: float64_ops where
  "exact_float64 =
     \<lparr>mul_trunc = (\<lambda>a f. word_of_int (truncate_rat (of_int (sint a) * f))),
      to_int64 = (\<lambda>f. word_of_int (truncate_rat f))\<rparr>"

definition Multiply :: "float64_ops \<Rightarrow> Money \<Rightarrow> rat \<Rightarrow> Money" where
  "Multiply fl m factor =
     \<lparr>Money.Amount = mul_trunc fl (Money.Amount m) factor, Currency = Money.Currency m\<rparr>"

definition IsValid :: "Promotion \<Rightarrow> time \<Rightarrow> bool" where
  "IsValid p t =
     (if \<not> IsActive p then False
      else if t < ValidFrom p \<or> ValidTo p < t then False
      else if 0 < UsageLimit p \<and> UsageLimit p \<le> UsageCount p then False
      else True)"

definition CanApplyToProduct :: "Promotion \<Rightarrow> string \<Rightarrow> bool" where
  "CanApplyToProduct p productID =
     (if productID \<in> set (ExcludedProductIDs p) then False
      else if 0 < length (ApplicableProductIDs p)
           then productID \<in> set (ApplicableProductIDs p)
      else True)"

text \<open>
  The body of the loop of \<open>calculateDiscount\<close> for a line the promotion applies to:
  the \<open>switch\<close> on the discount type (no case for the other two types, so the discount
  stays \<open>Money{}\<close>), then the cap.
\<close>

definition itemDiscount :: "float64_ops \<Rightarrow> Promotion \<Rightarrow> string \<Rightarrow> LineItemPrice \<Rightarrow> Money" where
  "itemDiscount fl promotion currency price =
     (let d = (if Promotion.DiscountType promotion = DiscountTypePercentage
               then Multiply fl (LineItemPrice.Subtotal price) (Value promotion)
               else if Promotion.DiscountType promotion = DiscountTypeFixedAmount
               then fst (New (to_int64 fl (Value promotion)) currency)
               else Money_zero_value)
      in case MaxDiscount promotion of
           None \<Rightarrow> d
         | Some maxDiscount \<Rightarrow> if fst (GreaterThan d maxDiscount) then maxDiscount else d)"

text \<open>
  The loop \<open>for i, item := range lineItems\<close> of \<open>calculateDiscount\<close>. It writes
  \<open>lineItemPrices[i]\<close> in place: the model returns the updated slice with the running
  total and the ids of the lines it applied to. Both slices have the length of the cart
  in every call of the source (\<open>PriceCart\<close> makes them so); where the prices run out
  first, Go panics on the index and the model stops the loop.
\<close>

fun discountLoop ::
  "float64_ops \<Rightarrow> Promotion \<Rightarrow> string \<Rightarrow> LineItem list \<Rightarrow> LineItemPrice list \<Rightarrow>
   Money \<Rightarrow> string list \<Rightarrow> LineItemPrice list \<times> Money \<times> string list" where
  "discountLoop fl promotion currency [] prices totalDiscount appliedToItems =
     (prices, totalDiscount, appliedToItems)"
| "discountLoop fl promotion currency (item # items) [] totalDiscount appliedToItems =
     ([], totalDiscount, appliedToItems)"
| "discountLoop fl promotion currency (item # items) (price # prices) totalDiscount appliedToItems =
     (if \<not> CanApplyToProduct promotion (LineItem.ProductID item)
      then (case discountLoop fl promotion currency items prices totalDiscount appliedToItems of
              (prices', r) \<Rightarrow> (price # prices', r))
      else
        let d = itemDiscount fl promotion currency price;
            price' = price\<lparr>LineItemPrice.DiscountAmount :=
                              fst (Add (LineItemPrice.DiscountAmount price) d)\<rparr>
        in case discountLoop fl promotion currency items prices (fst (Add totalDiscount d))
                  (appliedToItems @ [LineItem.ID item]) of
             (prices', r) \<Rightarrow> (price' # prices', r))"

definition calculateDiscount ::
  "float64_ops \<Rightarrow> Promotion \<Rightarrow> LineItem list \<Rightarrow> LineItemPrice list \<Rightarrow>
   AppliedDiscount option \<times> LineItemPrice list" where
  "calculateDiscount fl promotion lineItems lineItemPrices =
     (if length lineItems = 0 then (None, lineItemPrices)
      else
        let currency = Money.Currency (UnitPrice (hd lineItems))
        in case discountLoop fl promotion currency lineItems lineItemPrices (Zero currency) [] of
             (prices', totalDiscount, appliedToItems) \<Rightarrow>
               if IsZero totalDiscount then (None, prices')
               else (Some \<lparr>PromotionID = Promotion.ID promotion,
                           Code = Promotion.Code promotion,
                           Name = Promotion.Name promotion,
                           DiscountType = Promotion.DiscountType promotion,
                           Amount = totalDiscount,
                           AppliedToItems = appliedToItems\<rparr>, prices'))"

text \<open>
  \<open>applyPromotions\<close>: the applied discounts in the order of the codes, and the line
  prices as the loop leaves them. Its error is always nil. \<open>now\<close> is the reading of
  \<open>time.Now()\<close>.
\<close>

fun applyPromotions ::
  "float64_ops \<Rightarrow> time \<Rightarrow> PricingService \<Rightarrow> LineItem list \<Rightarrow> LineItemPrice list \<Rightarrow>
   string list \<Rightarrow> AppliedDiscount list \<times> LineItemPrice list" where
  "applyPromotions fl now s lineItems lineItemPrices [] = ([], lineItemPrices)"
| "applyPromotions fl now s lineItems lineItemPrices (code # codes) =
     (case promotionRepo s code of
        Inl err \<Rightarrow> applyPromotions fl now s lineItems lineItemPrices codes
      | Inr promotion \<Rightarrow>
          if \<not> IsValid promotion now
          then applyPromotions fl now s lineItems lineItemPrices codes
          else
            (case calculateDiscount fl promotion lineItems lineItemPrices of
               (discount, prices') \<Rightarrow>
                 (case applyPromotions fl now s lineItems prices' codes of
                    (rest, prices'') \<Rightarrow>
                      ((case discount of None \<Rightarrow> rest | Some d \<Rightarrow> d # rest), prices''))))"

definition ValidatePromotion ::
  "time \<Rightarrow> PricingService \<Rightarrow> string \<Rightarrow> Money \<Rightarrow> error + Promotion" where
  "ValidatePromotion now s code cartTotal =
     (case promotionRepo s code of
        Inl err \<Rightarrow> Inl err
      | Inr promotion \<Rightarrow>
          if \<not> IsValid promotion now then Inl ErrPromotionInvalid
          else (case MinPurchase promotion of
                  None \<Rightarrow> Inr promotion
                | Some minPurchase \<Rightarrow>
                    if \<not> fst (GreaterThan cartTotal minPurchase) then Inl ErrMinPurchaseNotMet
                    else Inr promotion))"

subsection \<open>PriceCart\<close>

definition toLineItem :: "CartItem \<Rightarrow> LineItem" where
  "toLineItem item =
     \<lparr>LineItem.ID = CartItem.ID item,
      ProductID = CartItem.ProductID item,
      VariantID = CartItem.VariantID item,
      SKU = CartItem.SKU item,
      Name = CartItem.Name item,
      UnitPrice = Price item,
      Quantity = CartItem.Quantity item,
      Attributes = CartItem.Attributes item\<rparr>"

definition initialPrice :: "string \<Rightarrow> LineItem \<Rightarrow> LineItemPrice" where
  "initialPrice currency item =
     (let itemSubtotal = MultiplyInt (UnitPrice item) (LineItem.Quantity item)
      in \<lparr>LineItemID = LineItem.ID item,
          Subtotal = itemSubtotal,
          DiscountAmount = Zero currency,
          TaxAmount = Zero currency,
          Total = itemSubtotal\<rparr>)"

text \<open>The two accumulating loops \<open>x, _ = x.Add(y)\<close> of \<open>PriceCart\<close>.\<close>

definition sumSubtotal :: "string \<Rightarrow> LineItem list \<Rightarrow> Money" where
  "sumSubtotal currency lineItems =
     foldl (\<lambda>subtotal item.
              fst (Add subtotal (MultiplyInt (UnitPrice item) (LineItem.Quantity item))))
           (Zero currency) lineItems"

definition sumDiscounts :: "string \<Rightarrow> AppliedDiscount list \<Rightarrow> Money" where
  "sumDiscounts currency appliedDiscounts =
     foldl (\<lambda>discountTotal discount. fst (Add discountTotal (AppliedDiscount.Amount discount)))
           (Zero currency) appliedDiscounts"

definition convertToShippingItems :: "LineItem list \<Rightarrow> ShippableItem list" where
  "convertToShippingItems items = []"

definition convertToShippingAddress :: "pricing_Address option \<Rightarrow> shipping_Address" where
  "convertToShippingAddress addr =
     (case addr of
        None \<Rightarrow> \<lparr>shipping_Address.Country = '''', State = '''', City = '''', PostalCode = ''''\<rparr>
      | Some a \<Rightarrow> \<lparr>shipping_Address.Country = pricing_Address.Country a,
                   State = pricing_Address.State a,
                   City = pricing_Address.City a,
                   PostalCode = pricing_Address.PostalCode a\<rparr>)"

text \<open>
  \<open>convertToTaxableItems\<close> reads \<open>prices[i]\<close> for every item; the slices have the same
  length where it is called. \<open>TaxCode\<close> and \<open>IsTaxable\<close> are left at their zero values.
\<close>

fun convertToTaxableItems :: "LineItem list \<Rightarrow> LineItemPrice list \<Rightarrow> TaxableItem list" where
  "convertToTaxableItems (item # items) (price # prices) =
     \<lparr>TaxableItem.ID = LineItem.ID item,
      Amount = LineItemPrice.Subtotal price,
      Quantity = LineItem.Quantity item,
      TaxCode = '''',
      IsTaxable = False\<rparr> # convertToTaxableItems items prices"
| "convertToTaxableItems items prices = []"

definition convertToTaxAddress :: "pricing_Address option \<Rightarrow> tax_Address" where
  "convertToTaxAddress addr =
     (case addr of
        None \<Rightarrow> \<lparr>tax_Address.Country = '''', State = '''', City = '''', PostalCode = '''',
                 Street = ''''\<rparr>
      | Some a \<Rightarrow> \<lparr>tax_Address.Country = pricing_Address.Country a,
                   State = pricing_Address.State a,
                   City = pricing_Address.City a,
                   PostalCode = pricing_Address.PostalCode a,
                   Street = ''''\<rparr>)"

definition convertTaxLines :: "CalculationResult \<Rightarrow> TaxLine list" where
  "convertTaxLines result =
     map (\<lambda>rate. \<lparr>TaxLine.Name = AppliedTaxRate.Name rate,
                   Rate = AppliedTaxRate.Rate rate,
                   Amount = AppliedTaxRate.Amount rate,
                   Jurisdiction = AppliedTaxRate.Jurisdiction rate\<rparr>)
         (CalculationResult.TaxRates result)"

text \<open>
  The loop over \<open>taxResult.LineItemTaxes\<close>: entry \<open>i\<close> sets the tax of line \<open>i\<close> when
  \<open>i < len(lineItemPrices)\<close>.
\<close>

fun setLineTaxes :: "LineItemTax list \<Rightarrow> LineItemPrice list \<Rightarrow> LineItemPrice list" where
  "setLineTaxes (taxLine # taxLines) (price # prices) =
     price\<lparr>LineItemPrice.TaxAmount := LineItemTax.TaxAmount taxLine\<rparr>
       # setLineTaxes taxLines prices"
| "setLineTaxes taxLines prices = prices"

definition lineTotal :: "LineItemPrice \<Rightarrow> LineItemPrice" where
  "lineTotal price =
     price\<lparr>LineItemPrice.Total :=
             fst (Add (fst (Subtract (LineItemPrice.Subtotal price)
                                     (LineItemPrice.DiscountAmount price)))
                      (LineItemPrice.TaxAmount price))\<rparr>"

text \<open>The request \<open>PriceCart\<close> hands to the shipping-rate calculator.\<close>

definition rateRequest :: "PriceCartRequest \<Rightarrow> LineItem list \<Rightarrow> string \<Rightarrow> RateRequest" where
  "rateRequest req lineItems methodID =
     \<lparr>RateRequest.Items = convertToShippingItems lineItems,
      SourceAddress = convertToShippingAddress None,
      DestinationAddress = convertToShippingAddress (PriceCartRequest.ShippingAddress req),
      ShippingMethodID = methodID\<rparr>"

definition shippingQuote ::
  "PricingService \<Rightarrow> PriceCartRequest \<Rightarrow> LineItem list \<Rightarrow> string \<Rightarrow> Money" where
  "shippingQuote s req lineItems currency =
     (case PriceCartRequest.ShippingMethodID req of
        None \<Rightarrow> Zero currency
      | Some methodID \<Rightarrow>
          (case shippingCalc s of
             None \<Rightarrow> Zero currency
           | Some getRate \<Rightarrow>
               (case getRate (rateRequest req lineItems methodID) of
                  (Some shippingRate, None) \<Rightarrow> Cost shippingRate
                | _ \<Rightarrow> Zero currency)))"

text \<open>
  The tax step: the tax lines, the tax total, the line prices with their tax amounts,
  and the requests handed to the tax calculator (none or one).
\<close>

definition taxRequest ::
  "PriceCartRequest \<Rightarrow> LineItem list \<Rightarrow> LineItemPrice list \<Rightarrow> Money \<Rightarrow> CalculationRequest" where
  "taxRequest req lineItems lineItemPrices shippingTotal =
     \<lparr>LineItems = convertToTaxableItems lineItems lineItemPrices,
      ShippingCost = shippingTotal,
      Address = convertToTaxAddress (PriceCartRequest.ShippingAddress req),
      TaxInclusive = PriceCartRequest.TaxInclusive req\<rparr>"

definition taxStep ::
  "PricingService \<Rightarrow> PriceCartRequest \<Rightarrow> LineItem list \<Rightarrow> LineItemPrice list \<Rightarrow> Money \<Rightarrow>
   string \<Rightarrow> TaxLine list \<times> Money \<times> LineItemPrice list \<times> CalculationRequest list" where
  "taxStep s req lineItems lineItemPrices shippingTotal currency =
     (case PriceCartRequest.ShippingAddress req of
        None \<Rightarrow> ([], Zero currency, lineItemPrices, [])
      | Some addr \<Rightarrow>
          (case taxCalculator s of
             None \<Rightarrow> ([], Zero currency, lineItemPrices, [])
           | Some calculate \<Rightarrow>
               let taxReq = taxRequest req lineItems lineItemPrices shippingTotal
               in (case calculate taxReq of
                     Inl err \<Rightarrow> ([], Zero currency, lineItemPrices, [taxReq])
                   | Inr taxResult \<Rightarrow>
                       (convertTaxLines taxResult, TotalTax taxResult,
                        setLineTaxes (LineItemTaxes taxResult) lineItemPrices, [taxReq]))))"


text \<open>
  \<open>PriceCart\<close> with the calls it makes to the tax calculator: the pair
  \<open>(*PricingResult, error)\<close> it returns, and the list of requests it sent.
\<close>

definition PriceCart_traced ::
  "float64_ops \<Rightarrow> time \<Rightarrow> PricingService \<Rightarrow> PriceCartRequest \<Rightarrow>
   (PricingResult option \<times> error option) \<times> CalculationRequest list" where
  "PriceCart_traced fl now s req =
     (case PriceCartRequest.Cart req of
        None \<Rightarrow> ((None, None), [])
      | Some cart \<Rightarrow>
          if IsEmpty cart then ((None, None), [])
          else
            let lineItems = map toLineItem (Cart.Items cart);
                currency = Money.Currency (Price (hd (Cart.Items cart)));
                subtotal = sumSubtotal currency lineItems;
                prices0 = map (initialPrice currency) lineItems
            in case applyPromotions fl now s lineItems prices0 (PriceCartRequest.PromotionCodes req) of
                 (appliedDiscounts, prices1) \<Rightarrow>
                   let discountTotal = sumDiscounts currency appliedDiscounts;
                       shippingTotal = shippingQuote s req lineItems currency
                   in case taxStep s req lineItems prices1 shippingTotal currency of
                        (taxLines, taxTotal, prices2, sent) \<Rightarrow>
                          let subtotalAfterDiscount = fst (Subtract subtotal discountTotal);
                              total = fst (Add (fst (Add subtotalAfterDiscount taxTotal))
                                               shippingTotal)
                          in ((Some \<lparr>PricingResult.Subtotal = subtotal,
                                      DiscountTotal = discountTotal,
                                      TaxTotal = taxTotal,
                                      ShippingTotal = shippingTotal,
                                      Total = total,
                                      LineItemPrices = map lineTotal prices2,
                                      AppliedDiscounts = appliedDiscounts,
                                      TaxLines = taxLines,
                                      Currency = currency,
                                      CalculatedAt = now\<rparr>, None), sent))"

definition PriceCart ::
  "float64_ops \<Rightarrow> time \<Rightarrow> PricingService \<Rightarrow> PriceCartRequest \<Rightarrow>
   PricingResult option \<times> error option" where
  "PriceCart fl now s req = fst (PriceCart_traced fl now s req)"

section \<open>Package payments\<close>

type_synonym IntentStatus = string

definition IntentStatusPending :: IntentStatus where "IntentStatusPending = ''pending''"
definition IntentStatusSucceeded :: IntentStatus where "IntentStatusSucceeded = ''succeeded''"
definition IntentStatusFailed :: IntentStatus where "IntentStatusFailed = ''failed''"

record IntentRequest =
  Amount :: Money
  Currency :: string
  PaymentMethodID :: string
  OrderID :: string
  Description :: string
  Metadata :: "(string \<times> string) list"
  CaptureMethod :: string

record PaymentIntent =
  ID :: string
  Amount :: Money
  Currency :: string
  Status :: IntentStatus
  PaymentMethodID :: string
  OrderID :: string
  Description :: string
  CapturedAmount :: Money
  Metadata :: "(string \<times> string) list"
  CreatedAt :: time
  UpdatedAt :: time
  ExpiresAt :: "time option"


section \<open>Package orders: the service\<close>

record CreateOrderRequest =
  Cart :: "Cart option"
  UserID :: string
  ShippingAddress :: Address
  BillingAddress :: Address
  PaymentMethodID :: string
  PromotionCodes :: "string list"
  ShippingMethodID :: string
  Notes :: string
  IPAddress :: string
  UserAgent :: string

text \<open>
  The inventory collaborator is an interface. Its state is the list of the reservations
  it holds, each a triple (sku, quantity, reference id); \<open>Reserve\<close> either fails or
  gives the new state, \<open>Release\<close> gives the new state (its error is dropped by every
  caller). Both are arbitrary functions here.
\<close>

type_synonym reservation = "string \<times> int \<times> string"

record InventoryService =
  Reserve :: "reservation list \<Rightarrow> string \<Rightarrow> int \<Rightarrow> string \<Rightarrow> error + reservation list"
  Release :: "reservation list \<Rightarrow> string \<Rightarrow> int \<Rightarrow> string \<Rightarrow> reservation list"

text \<open>
  What the calls act on: the orders the repository has stored (latest first), the
  reservations held, and how many ids and order numbers the two generators have issued.
\<close>

record World =
  stored :: "(string \<times> Order) list"
  held :: "reservation list"
  ids :: nat
  numbers :: nat

text \<open>
  The service. \<open>Save_err\<close> decides, from the stored orders and the order to save,
  whether \<open>repo.Save\<close> fails and with which error; the pricing service and the payment
  gateway are arbitrary functions; a nil collaborator is \<open>None\<close>; the \<open>k\<close>-th call of
  a generator returns its value at \<open>k\<close>.
\<close>

record OrderService =
  Save_err :: "(string \<times> Order) list \<Rightarrow> Order \<Rightarrow> error option"
  pricingService :: "PriceCartRequest \<Rightarrow> PricingResult option \<times> error option"
  inventoryService :: "InventoryService option"
  paymentGateway :: "(IntentRequest \<Rightarrow> error + PaymentIntent) option"
  orderNumberGen :: "nat \<Rightarrow> string"
  idGenerator :: "nat \<Rightarrow> string"

text \<open>
  Modelled from the spec: the order repository is an interface of which the core holds
  no implementation (\<open>save(order) \<rightarrow> ok|failure\<close>, \<open>findById(id) \<rightarrow> Order|not-found\<close>).
  A successful \<open>Save\<close> stores the order under its id; \<open>FindByID\<close> returns the latest
  order stored under the id.
\<close>

definition repo_Save :: "OrderService \<Rightarrow> World \<Rightarrow> Order \<Rightarrow> error option \<times> World" where
  "repo_Save s w ord =
     (case Save_err s (stored w) ord of
        Some err \<Rightarrow> (Some err, w)
      | None \<Rightarrow> (None, w\<lparr>stored := (Order.ID ord, ord) # stored w\<rparr>))"

definition repo_FindByID :: "World \<Rightarrow> string \<Rightarrow> error + Order" where
  "repo_FindByID w orderID =
     (case map_of (stored w) orderID of
        None \<Rightarrow> Inl ErrOrderNotFound
      | Some ord \<Rightarrow> Inr ord)"

definition rollbackInventory :: "OrderService \<Rightarrow> string \<Rightarrow> reservation list \<Rightarrow> reservation list" where
  "rollbackInventory s reservationID h =
     (case inventoryService s of
        None \<Rightarrow> h
      | Some inventory \<Rightarrow> Release inventory h '''' 0 reservationID)"

text \<open>The loop \<open>for _, item := range req.Cart.Items\<close> that reserves the inventory.\<close>

fun reserveLoop ::
  "OrderService \<Rightarrow> InventoryService \<Rightarrow> string \<Rightarrow> CartItem list \<Rightarrow> reservation list \<Rightarrow>
   error option \<times> reservation list" where
  "reserveLoop s inventory reservationID [] h = (None, h)"
| "reserveLoop s inventory reservationID (item # items) h =
     (case Reserve inventory h (CartItem.SKU item) (CartItem.Quantity item) reservationID of
        Inl err \<Rightarrow> (Some err, rollbackInventory s reservationID h)
      | Inr h' \<Rightarrow> reserveLoop s inventory reservationID items h')"

definition reserveInventory :: "OrderService \<Rightarrow> World \<Rightarrow> Cart \<Rightarrow> error option \<times> World" where
  "reserveInventory s w cart =
     (case inventoryService s of
        None \<Rightarrow> (None, w)
      | Some inventory \<Rightarrow>
          let reservationID = idGenerator s (ids w);
              w1 = w\<lparr>ids := ids w + 1\<rparr>
          in case reserveLoop s inventory reservationID (Cart.Items cart) (held w1) of
               (err, h) \<Rightarrow> (err, w1\<lparr>held := h\<rparr>))"

text \<open>The zero value \<open>LineItemPrice{}\<close> of a line without a price.\<close>

definition LineItemPrice_zero_value :: LineItemPrice where
  "LineItemPrice_zero_value =
     \<lparr>LineItemID = '''', Subtotal = Money_zero_value, DiscountAmount = Money_zero_value,
      TaxAmount = Money_zero_value, Total = Money_zero_value\<rparr>"

text \<open>
  The loop that builds the order items: item \<open>i\<close> takes \<open>LineItemPrices[i]\<close> when there
  is one, and the next id of the generator (\<open>k\<close> counts the ids issued).
\<close>

fun buildOrderItems ::
  "(nat \<Rightarrow> string) \<Rightarrow> nat \<Rightarrow> CartItem list \<Rightarrow> LineItemPrice list \<Rightarrow> OrderItem list" where
  "buildOrderItems gen k [] prices = []"
| "buildOrderItems gen k (cartItem # cartItems) prices =
     (let itemPrice = (case prices of [] \<Rightarrow> LineItemPrice_zero_value | p # ps \<Rightarrow> p)
      in \<lparr>OrderItem.ID = gen k,
          ProductID = CartItem.ProductID cartItem,
          VariantID = CartItem.VariantID cartItem,
          SKU = CartItem.SKU cartItem,
          Name = CartItem.Name cartItem,
          UnitPrice = Price cartItem,
          Quantity = CartItem.Quantity cartItem,
          DiscountAmount = LineItemPrice.DiscountAmount itemPrice,
          TaxAmount = LineItemPrice.TaxAmount itemPrice,
          Total = LineItemPrice.Total itemPrice,
          Attributes = CartItem.Attributes cartItem\<rparr>
         # buildOrderItems gen (k + 1) cartItems (case prices of [] \<Rightarrow> [] | p # ps \<Rightarrow> ps))"

text \<open>The request \<open>CreateFromCart\<close> hands to the pricing service.\<close>

definition priceCartRequest :: "CreateOrderRequest \<Rightarrow> Cart \<Rightarrow> PriceCartRequest" where
  "priceCartRequest req cart =
     \<lparr>PriceCartRequest.Cart = Some cart,
      PromotionCodes = CreateOrderRequest.PromotionCodes req,
      ShippingMethodID = Some (CreateOrderRequest.ShippingMethodID req),
      ShippingAddress =
        Some \<lparr>pricing_Address.Country = Address.Country (CreateOrderRequest.ShippingAddress req),
              State = Address.State (CreateOrderRequest.ShippingAddress req),
              City = Address.City (CreateOrderRequest.ShippingAddress req),
              PostalCode = Address.PostalCode (CreateOrderRequest.ShippingAddress req)\<rparr>,
      TaxInclusive = False\<rparr>"

text \<open>
  The order \<open>CreateFromCart\<close> builds, in the world \<open>w\<close> the reservation step left:
  the items take the next ids of the generator, the order the one after them.
\<close>

definition newOrder ::
  "time \<Rightarrow> OrderService \<Rightarrow> World \<Rightarrow> CreateOrderRequest \<Rightarrow> Cart \<Rightarrow> PricingResult \<Rightarrow> Order" where
  "newOrder now s w req cart pr =
     \<lparr>Order.ID = idGenerator s (ids w + length (Cart.Items cart)),
      OrderNumber = orderNumberGen s (numbers w),
      UserID = CreateOrderRequest.UserID req,
      Status = OrderStatusPending,
      Items = buildOrderItems (idGenerator s) (ids w) (Cart.Items cart) (LineItemPrices pr),
      ShippingAddress = CreateOrderRequest.ShippingAddress req,
      BillingAddress =
        (if \<not> IsComplete (CreateOrderRequest.BillingAddress req)
         then CreateOrderRequest.ShippingAddress req
         else CreateOrderRequest.BillingAddress req),
      PaymentMethodID = CreateOrderRequest.PaymentMethodID req,
      Subtotal = PricingResult.Subtotal pr,
      DiscountTotal = PricingResult.DiscountTotal pr,
      TaxTotal = PricingResult.TaxTotal pr,
      ShippingTotal = PricingResult.ShippingTotal pr,
      Total = PricingResult.Total pr,
      Notes = CreateOrderRequest.Notes req,
      IPAddress = CreateOrderRequest.IPAddress req,
      UserAgent = CreateOrderRequest.UserAgent req,
      CreatedAt = now,
      UpdatedAt = now,
      CompletedAt = None,
      CanceledAt = None\<rparr>"

text \<open>The request of the payment step, on the order just saved.\<close>

definition intentRequest :: "CreateOrderRequest \<Rightarrow> Order \<Rightarrow> IntentRequest" where
  "intentRequest req ord =
     \<lparr>IntentRequest.Amount = Order.Total ord,
      Currency = Money.Currency (Order.Total ord),
      PaymentMethodID = CreateOrderRequest.PaymentMethodID req,
      OrderID = Order.ID ord,
      Description = ''Order '' @ OrderNumber ord,
      Metadata = [],
      CaptureMethod = ''''\<rparr>"

definition processPayment ::
  "time \<Rightarrow> OrderService \<Rightarrow> World \<Rightarrow> CreateOrderRequest \<Rightarrow> Order \<Rightarrow>
   (Order option \<times> error option) \<times> World" where
  "processPayment now s w req ord =
     (case paymentGateway s of
        None \<Rightarrow> ((Some ord, None), w)
      | Some createIntent \<Rightarrow>
          (case createIntent (intentRequest req ord) of
             Inl err \<Rightarrow> ((None, Some ErrPaymentFailed), w)
           | Inr intent \<Rightarrow>
               if PaymentIntent.Status intent = IntentStatusSucceeded
               then (let ord' = fst (Order_UpdateStatus now ord OrderStatusPaid)
                     in ((Some ord', None), snd (repo_Save s w ord')))
               else ((Some ord, None), w)))"

text \<open>
  \<open>CreateFromCart\<close>: Go's pair \<open>(*Order, error)\<close> and the world afterwards. The steps
  are in the order of the source: the two validations, pricing, the reservation of the
  inventory, the order, \<open>repo.Save\<close>, the payment. A pricing service that returns
  neither a result nor an error makes the loop over the cart items dereference nil.
\<close>

definition CreateFromCart ::
  "time \<Rightarrow> OrderService \<Rightarrow> World \<Rightarrow> CreateOrderRequest \<Rightarrow>
   (Order option \<times> error option) \<times> World" where
  "CreateFromCart now s w req =
     (case CreateOrderRequest.Cart req of
        None \<Rightarrow> ((None, Some ErrEmptyCart), w)
      | Some cart \<Rightarrow>
          if IsEmpty cart then ((None, Some ErrEmptyCart), w)
          else if \<not> IsComplete (CreateOrderRequest.ShippingAddress req)
          then ((None, Some ErrInvalidAddress), w)
          else
            (case pricingService s (priceCartRequest req cart) of
               (pricingResult, Some err) \<Rightarrow> ((None, Some err), w)
             | (pricingResult, None) \<Rightarrow>
                 (case reserveInventory s w cart of
                    (Some err, w1) \<Rightarrow> ((None, Some err), w1)
                  | (None, w1) \<Rightarrow>
                      (case pricingResult of
                         None \<Rightarrow> ((None, Some (Panic ''nil pointer dereference'')), w1)
                       | Some pr \<Rightarrow>
                           let ord = newOrder now s w1 req cart pr;
                               w2 = w1\<lparr>ids := ids w1 + length (Cart.Items cart) + 1,
                                       numbers := numbers w1 + 1\<rparr>
                           in (case repo_Save s w2 ord of
                                 (Some err, w3) \<Rightarrow> ((None, Some err), w3)
                               | (None, w3) \<Rightarrow> processPayment now s w3 req ord)))))"


text \<open>The service's \<open>UpdateStatus\<close>.\<close>

definition OrderService_UpdateStatus ::
  "time \<Rightarrow> OrderService \<Rightarrow> World \<Rightarrow> string \<Rightarrow> OrderStatus \<Rightarrow>
   (Order option \<times> error option) \<times> World" where
  "OrderService_UpdateStatus now s w orderID status =
     (case repo_FindByID w orderID of
        Inl err \<Rightarrow> ((None, Some err), w)
      | Inr ord \<Rightarrow>
          (case Order_UpdateStatus now ord status of
             (ord', False) \<Rightarrow> ((None, Some ErrInvalidStatus), w)
           | (ord', True) \<Rightarrow>
               (case repo_Save s w ord' of
                  (Some err, w') \<Rightarrow> ((None, Some err), w')
                | (None, w') \<Rightarrow> ((Some ord', None), w'))))"


section \<open>The statements of the specification\<close>

text \<open>The directed edges the specification lists for the order state machine.\<close>

definition spec_edges :: "(OrderStatus \<times> OrderStatus) list" where
  "spec_edges =
     [(''pending'', ''paid''), (''pending'', ''canceled''),
      (''paid'', ''processing''), (''paid'', ''canceled''), (''paid'', ''refunded''),
      (''processing'', ''shipped''), (''processing'', ''canceled''),
      (''shipped'', ''delivered''),
      (''delivered'', ''refunded'')]"

section \<open>Money: currency safety\<close>

text \<open>
  C8. For two Money values of different currencies, \<open>Add\<close>, \<open>Subtract\<close>, \<open>LessThan\<close>
  and \<open>GreaterThan\<close> return \<open>ErrCurrencyMismatch\<close>, and \<open>Equals\<close> returns false
  without failing; for two values of the same currency none of the four returns an
  error.
\<close>

theorem money_currency_safety:
  "(Money.Currency m \<noteq> Money.Currency other \<longrightarrow>
      snd (Add m other) = Some ErrCurrencyMismatch \<and>
      snd (Subtract m other) = Some ErrCurrencyMismatch \<and>
      snd (LessThan m other) = Some ErrCurrencyMismatch \<and>
      snd (GreaterThan m other) = Some ErrCurrencyMismatch \<and>
      Equals m other = False) \<and>
   (Money.Currency m = Money.Currency other \<longrightarrow>
      snd (Add m other) = None \<and>
      snd (Subtract m other) = None \<and>
      snd (LessThan m other) = None \<and>
      snd (GreaterThan m other) = None)"
  by (simp add: Add_def Subtract_def LessThan_def GreaterThan_def Equals_def)

theorem money_currency_safety_witness:
  "(Money.Currency \<lparr>Money.Amount = 5, Currency = ''USD''\<rparr>
      \<noteq> Money.Currency \<lparr>Money.Amount = 3, Currency = ''EUR''\<rparr> \<and>
    snd (Add \<lparr>Money.Amount = 5, Currency = ''USD''\<rparr> \<lparr>Money.Amount = 3, Currency = ''EUR''\<rparr>)
      = Some ErrCurrencyMismatch \<and>
    snd (Subtract \<lparr>Money.Amount = 5, Currency = ''USD''\<rparr> \<lparr>Money.Amount = 3, Currency = ''EUR''\<rparr>)
      = Some ErrCurrencyMismatch \<and>
    snd (LessThan \<lparr>Money.Amount = 5, Currency = ''USD''\<rparr> \<lparr>Money.Amount = 3, Currency = ''EUR''\<rparr>)
      = Some ErrCurrencyMismatch \<and>
    snd (GreaterThan \<lparr>Money.Amount = 5, Currency = ''USD''\<rparr> \<lparr>Money.Amount = 3, Currency = ''EUR''\<rparr>)
      = Some ErrCurrencyMismatch \<and>
    Equals \<lparr>Money.Amount = 5, Currency = ''USD''\<rparr> \<lparr>Money.Amount = 3, Currency = ''EUR''\<rparr> = False) \<and>
   (Money.Currency \<lparr>Money.Amount = 5, Currency = ''USD''\<rparr>
      = Money.Currency \<lparr>Money.Amount = 3, Currency = ''USD''\<rparr> \<and>
    snd (Add \<lparr>Money.Amount = 5, Currency = ''USD''\<rparr> \<lparr>Money.Amount = 3, Currency = ''USD''\<rparr>) = None \<and>
    snd (Subtract \<lparr>Money.Amount = 5, Currency = ''USD''\<rparr> \<lparr>Money.Amount = 3, Currency = ''USD''\<rparr>) = None \<and>
    snd (LessThan \<lparr>Money.Amount = 5, Currency = ''USD''\<rparr> \<lparr>Money.Amount = 3, Currency = ''USD''\<rparr>) = None \<and>
    snd (GreaterThan \<lparr>Money.Amount = 5, Currency = ''USD''\<rparr> \<lparr>Money.Amount = 3, Currency = ''USD''\<rparr>) = None)"
  using money_currency_safety [of "\<lparr>Money.Amount = 5, Currency = ''USD''\<rparr>"
                                  "\<lparr>Money.Amount = 3, Currency = ''EUR''\<rparr>"]
        money_currency_safety [of "\<lparr>Money.Amount = 5, Currency = ''USD''\<rparr>"
                                  "\<lparr>Money.Amount = 3, Currency = ''USD''\<rparr>"]
  by simp

end
